theory Spec2Isabelle
  imports Main
begin

section \<open>Draft snap commands and the snap keyboard handler (gui_snaps.py)\<close>

text \<open>
  The module \<^verbatim>\<open>draftguitools/gui_snaps.py\<close> holds the snap command classes and the
  module-level function \<^verbatim>\<open>keyPressEvent(self, event)\<close>. The tracker, the working
  plane, the vectors and the snapper belong to other modules: their methods are taken
  as parameters of the model, and every call the handler makes to them is recorded.
\<close>

subsection \<open>Python values used by the handler\<close>

text \<open>
  An attribute that \<^verbatim>\<open>hasattr\<close> may find absent has three shapes: absent, bound to
  \<^verbatim>\<open>None\<close>, bound to an object.
\<close>

datatype 'a attr = Missing | PyNone | Obj 'a

text \<open>
  Strings are lists of characters read as code points below 256. On that block
  \<^verbatim>\<open>str.isspace\<close> holds of 9 to 13, 28 to 32, 133 and 160, and \<^verbatim>\<open>str.isdigit\<close>
  of the ASCII digits and of the superscripts 178, 179 and 185.
\<close>

definition isspace_char :: "char \<Rightarrow> bool" where
  "isspace_char c =
     (let n = (of_char c :: nat)
      in (9 \<le> n \<and> n \<le> 13) \<or> (28 \<le> n \<and> n \<le> 32) \<or> n = 133 \<or> n = 160)"

definition isdigit_char :: "char \<Rightarrow> bool" where
  "isdigit_char c =
     (let n = (of_char c :: nat)
      in (48 \<le> n \<and> n \<le> 57) \<or> n = 178 \<or> n = 179 \<or> n = 185)"

text \<open>\<^verbatim>\<open>s.isdigit()\<close>: at least one character, and every character a digit.\<close>

definition isdigit :: "string \<Rightarrow> bool" where
  "isdigit s = (s \<noteq> [] \<and> list_all isdigit_char s)"

text \<open>\<^verbatim>\<open>s.strip()\<close>: the whitespace at both ends is removed.\<close>

definition strip :: "string \<Rightarrow> string" where
  "strip s = rev (dropWhile isspace_char (rev (dropWhile isspace_char s)))"

text \<open>\<^verbatim>\<open>s[:-1]\<close>: the slice that stops one position before the end.\<close>

definition slice_to_minus1 :: "string \<Rightarrow> string" where
  "slice_to_minus1 s = take (length s - 1) s"

subsection \<open>Key codes\<close>

text \<open>The values of the \<^verbatim>\<open>QtCore.Qt.Key_*\<close> constants the handler compares with.\<close>

definition Key_Q :: int where "Key_Q = 0x51"
definition Key_Escape :: int where "Key_Escape = 0x01000000"
definition Key_0 :: int where "Key_0 = 0x30"
definition Key_9 :: int where "Key_9 = 0x39"
definition Key_Backspace :: int where "Key_Backspace = 0x01000003"
definition Key_Delete :: int where "Key_Delete = 0x01000007"
definition Key_Period :: int where "Key_Period = 0x2e"
definition Key_Comma :: int where "Key_Comma = 0x2c"
definition Key_Return :: int where "Key_Return = 0x01000004"
definition Key_Enter :: int where "Key_Enter = 0x01000005"

subsection \<open>The tracker, the handler object and the event\<close>

text \<open>
  The attributes of the tracker that the handler reads or writes; \<open>other\<close> is whatever
  else the tracker object holds. Points and vectors are values of the type \<open>'p\<close>.
\<close>

record ('p, 'r) snap_tracker =
  holdPoint :: "'p option"
  inputDistance :: "string option"
  locked_dir_vector :: "'p option"
  other :: 'r

text \<open>
  The object bound to \<^verbatim>\<open>self\<close>. The attribute \<^verbatim>\<open>currentSnapPoint\<close> is read without
  a \<^verbatim>\<open>hasattr\<close> test, so it is taken to exist; \<open>None\<close> is Python's \<^verbatim>\<open>None\<close>.
\<close>

record ('p, 'r) handler =
  tracker :: "('p, 'r) snap_tracker attr"
  currentSnapPoint :: "'p option"

record key_event =
  ev_key :: int
  ev_text :: string

text \<open>
  The methods of the collaborators, as parameters: the tracker's methods are state
  transformers of the tracker, \<^verbatim>\<open>commitInput\<close> also returns its target, the getters
  \<^verbatim>\<open>_get_wp\<close> and \<^verbatim>\<open>get_orthogonal_direction\<close> only read. \<open>multVec\<close> stands for
  \<^verbatim>\<open>wp.get_local_rotation().multVec(v)\<close>, \<open>vec_sub\<close> for the subtraction of two points
  and \<open>truth\<close> for the truth value Python gives to a point object.
\<close>

record ('p, 'r, 'w) tracker_ops =
  setHoldPoint :: "'p \<Rightarrow> ('p, 'r) snap_tracker \<Rightarrow> ('p, 'r) snap_tracker"
  clearHoldPoint :: "('p, 'r) snap_tracker \<Rightarrow> ('p, 'r) snap_tracker"
  processNumericInput :: "string \<Rightarrow> ('p, 'r) snap_tracker \<Rightarrow> ('p, 'r) snap_tracker"
  updateTracking :: "('p, 'r) snap_tracker \<Rightarrow> ('p, 'r) snap_tracker"
  commitInput :: "('p, 'r) snap_tracker \<Rightarrow> 'p option \<times> ('p, 'r) snap_tracker"
  get_wp :: "('p, 'r) snap_tracker \<Rightarrow> 'w"
  get_orthogonal_direction :: "('p, 'r) snap_tracker \<Rightarrow> 'p \<Rightarrow> 'p"
  multVec :: "'w \<Rightarrow> 'p \<Rightarrow> 'p"
  vec_sub :: "'p \<Rightarrow> 'p \<Rightarrow> 'p"
  truth :: "'p \<Rightarrow> bool"

text \<open>What the handler does to the tracker, in order: method calls and attribute writes.\<close>

datatype 'p call =
    Call_setHoldPoint 'p
  | Call_clearHoldPoint
  | Call_processNumericInput string
  | Call_updateTracking
  | Call_commitInput
  | Call_get_wp
  | Call_get_orthogonal_direction 'p
  | Write_inputDistance string
  | Write_locked_dir_vector 'p

text \<open>The lines sent to \<^verbatim>\<open>FreeCAD.Console\<close>, by the text they carry.\<close>

datatype 'p console_text =
    Tracker_missing
  | Hold_point_set 'p
  | Hold_point_cleared
  | Invalid_numeric_input string
  | Numeric_input_backspaced "string option"
  | No_valid_numeric_input
  | Geometry_created 'p
  | Snapper_missing
  | Snap_modes_missing

datatype 'p console = PrintError "'p console_text" | PrintMessage "'p console_text"

text \<open>
  The result of one call of the handler: the object afterwards, whether
  \<^verbatim>\<open>event.accept()\<close> was called, the console lines, the tracker calls, and whether the
  handler went on to \<^verbatim>\<open>super().keyPressEvent(event)\<close>.
\<close>

record ('p, 'r) outcome =
  after :: "('p, 'r) handler"
  accepted :: bool
  console :: "'p console list"
  calls :: "'p call list"
  to_super :: bool

definition truthy :: "('p, 'r, 'w) tracker_ops \<Rightarrow> 'p option \<Rightarrow> bool" where
  "truthy ops x = (case x of None \<Rightarrow> False | Some p \<Rightarrow> truth ops p)"

text \<open>The common end of every handled branch: \<^verbatim>\<open>event.accept(); return\<close>.\<close>

definition accept_return ::
  "('p, 'r) handler \<Rightarrow> ('p, 'r) snap_tracker \<Rightarrow> 'p console list \<Rightarrow> 'p call list
   \<Rightarrow> ('p, 'r) outcome" where
  "accept_return h t out cs =
     \<lparr>after = h\<lparr>tracker := Obj t\<rparr>, accepted = True, console = out, calls = cs,
      to_super = False\<rparr>"

subsection \<open>keyPressEvent\<close>

definition keyPressEvent ::
  "('p, 'r, 'w) tracker_ops \<Rightarrow> ('p, 'r) handler \<Rightarrow> key_event \<Rightarrow> ('p, 'r) outcome" where
  "keyPressEvent ops h event =
     (let key = ev_key event in
      case tracker h of
        Missing \<Rightarrow>
          \<lparr>after = h, accepted = True, console = [PrintError Tracker_missing], calls = [],
           to_super = False\<rparr>
      | PyNone \<Rightarrow>
          \<lparr>after = h, accepted = True, console = [PrintError Tracker_missing], calls = [],
           to_super = False\<rparr>
      | Obj t \<Rightarrow>
          if key = Key_Q then
            (case currentSnapPoint h of
               Some p \<Rightarrow>
                 accept_return h (setHoldPoint ops p t) [PrintMessage (Hold_point_set p)]
                   [Call_setHoldPoint p]
             | None \<Rightarrow> accept_return h t [] [])
          else if key = Key_Escape then
            accept_return h (clearHoldPoint ops t) [PrintMessage Hold_point_cleared]
              [Call_clearHoldPoint]
          else if Key_0 \<le> key \<and> key \<le> Key_9 then
            (if \<not> truthy ops (holdPoint t) then accept_return h t [] []
             else
               let digit = ev_text event in
               if \<not> isdigit digit then
                 accept_return h t [PrintError (Invalid_numeric_input digit)] []
               else if inputDistance t = None then
                 (let t1 = processNumericInput ops digit t in
                  case (holdPoint t1, currentSnapPoint h) of
                    (Some hp, Some sp) \<Rightarrow>
                      if truth ops hp \<and> truth ops sp then
                        (let direction = vec_sub ops sp hp;
                             wp = get_wp ops t1;
                             direction_local = multVec ops wp direction;
                             v = get_orthogonal_direction ops t1 direction_local
                         in accept_return h (t1\<lparr>locked_dir_vector := Some v\<rparr>) []
                              [Call_processNumericInput digit, Call_get_wp,
                               Call_get_orthogonal_direction direction_local,
                               Write_locked_dir_vector v])
                      else accept_return h t1 [] [Call_processNumericInput digit]
                  | _ \<Rightarrow> accept_return h t1 [] [Call_processNumericInput digit])
               else
                 accept_return h (processNumericInput ops digit t) []
                   [Call_processNumericInput digit])
          else if key = Key_Backspace \<or> key = Key_Delete then
            (case inputDistance t of
               None \<Rightarrow> accept_return h t [] []
             | Some s \<Rightarrow>
                 if s = [] then accept_return h t [] []
                 else
                   let t1 = t\<lparr>inputDistance := Some (slice_to_minus1 s)\<rparr>;
                       t2 = updateTracking ops t1
                   in accept_return h t2
                        [PrintMessage (Numeric_input_backspaced (inputDistance t2))]
                        [Write_inputDistance (slice_to_minus1 s), Call_updateTracking])
          else if key = Key_Period \<or> key = Key_Comma then
            accept_return h (processNumericInput ops ''.'' t) []
              [Call_processNumericInput ''.'']
          else if key = Key_Return \<or> key = Key_Enter then
            (case inputDistance t of
               None \<Rightarrow> accept_return h t [PrintError No_valid_numeric_input] []
             | Some s \<Rightarrow>
                 if s = [] \<or> strip s = [] then
                   accept_return h t [PrintError No_valid_numeric_input] []
                 else
                   (case commitInput ops t of
                      (Some target, t1) \<Rightarrow>
                        accept_return h t1 [PrintMessage (Geometry_created target)]
                          [Call_commitInput]
                    | (None, t1) \<Rightarrow> accept_return h t1 [] [Call_commitInput]))
          else
            \<lparr>after = h, accepted = False, console = [], calls = [], to_super = True\<rparr>)"

subsection \<open>The snap commands\<close>

text \<open>
  The host's \<^verbatim>\<open>Gui\<close> module may or may not carry a \<^verbatim>\<open>Snapper\<close> (\<open>None\<close> when
  \<^verbatim>\<open>hasattr(Gui, "Snapper")\<close> is false). Of the snapper the commands read
  \<^verbatim>\<open>snap_modes\<close> and \<^verbatim>\<open>active_snaps\<close>; its method \<^verbatim>\<open>toggle_snap\<close> is a parameter.
\<close>

record ('m, 's) snapper =
  snap_modes :: "'m attr"
  active_snaps :: "string list"
  snapper_other :: 's

record ('m, 's) gui =
  Snapper :: "('m, 's) snapper option"

text \<open>The classes whose instances the module passes to \<^verbatim>\<open>Gui.addCommand\<close>.\<close>

datatype command =
    Draft_Snap_Lock
  | Draft_Snap_Midpoint
  | Draft_Snap_Perpendicular
  | Draft_Snap_Grid
  | Draft_Snap_Intersection
  | Draft_Snap_Parallel
  | Draft_Snap_Endpoint
  | Draft_Snap_Angle
  | Draft_Snap_Center
  | Draft_Snap_Extension
  | Draft_Snap_Near
  | Draft_Snap_Ortho
  | Draft_Snap_Special
  | Draft_Snap_Dimensions
  | Draft_Snap_WorkingPlane
  | ShowSnapBar

text \<open>\<^verbatim>\<open>self.__class__.__name__\<close>\<close>

fun class_name :: "command \<Rightarrow> string" where
  "class_name Draft_Snap_Lock = ''Draft_Snap_Lock''"
| "class_name Draft_Snap_Midpoint = ''Draft_Snap_Midpoint''"
| "class_name Draft_Snap_Perpendicular = ''Draft_Snap_Perpendicular''"
| "class_name Draft_Snap_Grid = ''Draft_Snap_Grid''"
| "class_name Draft_Snap_Intersection = ''Draft_Snap_Intersection''"
| "class_name Draft_Snap_Parallel = ''Draft_Snap_Parallel''"
| "class_name Draft_Snap_Endpoint = ''Draft_Snap_Endpoint''"
| "class_name Draft_Snap_Angle = ''Draft_Snap_Angle''"
| "class_name Draft_Snap_Center = ''Draft_Snap_Center''"
| "class_name Draft_Snap_Extension = ''Draft_Snap_Extension''"
| "class_name Draft_Snap_Near = ''Draft_Snap_Near''"
| "class_name Draft_Snap_Ortho = ''Draft_Snap_Ortho''"
| "class_name Draft_Snap_Special = ''Draft_Snap_Special''"
| "class_name Draft_Snap_Dimensions = ''Draft_Snap_Dimensions''"
| "class_name Draft_Snap_WorkingPlane = ''Draft_Snap_WorkingPlane''"
| "class_name ShowSnapBar = ''ShowSnapBar''"

text \<open>The calls of \<^verbatim>\<open>Gui.addCommand\<close>, in the order of the module.\<close>

definition registered_commands :: "(string \<times> command) list" where
  "registered_commands =
     [(''Draft_Snap_Lock'', Draft_Snap_Lock),
      (''Draft_Snap_Midpoint'', Draft_Snap_Midpoint),
      (''Draft_Snap_Perpendicular'', Draft_Snap_Perpendicular),
      (''Draft_Snap_Grid'', Draft_Snap_Grid),
      (''Draft_Snap_Intersection'', Draft_Snap_Intersection),
      (''Draft_Snap_Parallel'', Draft_Snap_Parallel),
      (''Draft_Snap_Endpoint'', Draft_Snap_Endpoint),
      (''Draft_Snap_Angle'', Draft_Snap_Angle),
      (''Draft_Snap_Center'', Draft_Snap_Center),
      (''Draft_Snap_Extension'', Draft_Snap_Extension),
      (''Draft_Snap_Near'', Draft_Snap_Near),
      (''Draft_Snap_Ortho'', Draft_Snap_Ortho),
      (''Draft_Snap_Special'', Draft_Snap_Special),
      (''Draft_Snap_Dimensions'', Draft_Snap_Dimensions),
      (''Draft_Snap_WorkingPlane'', Draft_Snap_WorkingPlane),
      (''Draft_ShowSnapBar'', ShowSnapBar)]"

text \<open>
  The result of a method of \<^verbatim>\<open>Draft_Snap_Base\<close>: the \<^verbatim>\<open>Gui\<close> afterwards, the console
  lines and the calls of \<^verbatim>\<open>Gui.Snapper.toggle_snap\<close> with their arguments.
\<close>

record ('m, 's) gui_outcome =
  gui_after :: "('m, 's) gui"
  gui_console :: "unit console list"
  toggle_calls :: "(string \<times> bool) list"

definition Draft_Snap_Base_Activated ::
  "(string \<Rightarrow> bool \<Rightarrow> ('m, 's) snapper \<Rightarrow> ('m, 's) snapper) \<Rightarrow> ('m, 's) gui \<Rightarrow> command
   \<Rightarrow> int \<Rightarrow> ('m, 's) gui_outcome" where
  "Draft_Snap_Base_Activated toggle_snap g self status =
     (case Snapper g of
        Some sn \<Rightarrow>
          \<lparr>gui_after = g\<lparr>Snapper := Some (toggle_snap (drop 11 (class_name self)) (status \<noteq> 0) sn)\<rparr>,
           gui_console = [],
           toggle_calls = [(drop 11 (class_name self), status \<noteq> 0)]\<rparr>
      | None \<Rightarrow> \<lparr>gui_after = g, gui_console = [], toggle_calls = []\<rparr>)"

definition Draft_Snap_Base_isChecked :: "('m, 's) gui \<Rightarrow> command \<Rightarrow> bool" where
  "Draft_Snap_Base_isChecked g self =
     (case Snapper g of
        Some sn \<Rightarrow> drop 11 (class_name self) \<in> set (active_snaps sn)
      | None \<Rightarrow> False)"

definition Draft_Snap_Base_toggleSnapMode ::
  "(string \<Rightarrow> bool \<Rightarrow> ('m, 's) snapper \<Rightarrow> ('m, 's) snapper) \<Rightarrow> ('m, 's) gui \<Rightarrow> string
   \<Rightarrow> int \<Rightarrow> ('m, 's) gui_outcome" where
  "Draft_Snap_Base_toggleSnapMode toggle_snap g mode status =
     (case Snapper g of
        None \<Rightarrow> \<lparr>gui_after = g, gui_console = [PrintError Snapper_missing], toggle_calls = []\<rparr>
      | Some sn \<Rightarrow>
          (case snap_modes sn of
             Obj m \<Rightarrow>
               \<lparr>gui_after = g\<lparr>Snapper := Some (toggle_snap mode (status \<noteq> 0) sn)\<rparr>,
                gui_console = [],
                toggle_calls = [(mode, status \<noteq> 0)]\<rparr>
           | _ \<Rightarrow>
               \<lparr>gui_after = g, gui_console = [PrintError Snap_modes_missing],
                toggle_calls = []\<rparr>))"

text \<open>
  \<^verbatim>\<open>GetResources\<close> returns a dictionary, here the list of its items;
  \<^verbatim>\<open>QT_TRANSLATE_NOOP(context, text)\<close> is \<^verbatim>\<open>text\<close>.
\<close>

datatype res_value = Str string | Bool bool

fun GetResources :: "('m, 's) gui \<Rightarrow> command \<Rightarrow> (string \<times> res_value) list" where
  "GetResources g Draft_Snap_Lock =
     [(''Pixmap'', Str ''Draft_Snap_Lock''),
      (''Accel'', Str ''Shift+S''),
      (''MenuText'', Str ''Snap lock''),
      (''ToolTip'', Str ''Enables or disables snapping globally.''),
      (''CmdType'', Str ''NoTransaction''),
      (''Checkable'', Bool (Draft_Snap_Base_isChecked g Draft_Snap_Lock))]"
| "GetResources g Draft_Snap_Midpoint =
     [(''Pixmap'', Str ''Draft_Snap_Midpoint''),
      (''MenuText'', Str ''Snap midpoint''),
      (''ToolTip'', Str ''Snaps to the midpoint of edges.''),
      (''CmdType'', Str ''NoTransaction''),
      (''Checkable'', Bool (Draft_Snap_Base_isChecked g Draft_Snap_Midpoint))]"
| "GetResources g Draft_Snap_Perpendicular =
     [(''Pixmap'', Str ''Draft_Snap_Perpendicular''),
      (''MenuText'', Str ''Snap perpendicular''),
      (''ToolTip'', Str ''Snaps to the perpendicular points on faces and edges.''),
      (''CmdType'', Str ''NoTransaction''),
      (''Checkable'', Bool (Draft_Snap_Base_isChecked g Draft_Snap_Perpendicular))]"
| "GetResources g Draft_Snap_Grid =
     [(''Pixmap'', Str ''Draft_Snap_Grid''),
      (''MenuText'', Str ''Snap grid''),
      (''ToolTip'', Str ''Snaps to the intersections of grid lines.''),
      (''CmdType'', Str ''NoTransaction''),
      (''Checkable'', Bool (Draft_Snap_Base_isChecked g Draft_Snap_Grid))]"
| "GetResources g Draft_Snap_Intersection =
     [(''Pixmap'', Str ''Draft_Snap_Intersection''),
      (''MenuText'', Str ''Snap intersection''),
      (''ToolTip'', Str ''Snaps to the intersection of two edges.''),
      (''CmdType'', Str ''NoTransaction''),
      (''Checkable'', Bool (Draft_Snap_Base_isChecked g Draft_Snap_Intersection))]"
| "GetResources g Draft_Snap_Parallel =
     [(''Pixmap'', Str ''Draft_Snap_Parallel''),
      (''MenuText'', Str ''Snap parallel''),
      (''ToolTip'', Str ''Snaps to an imaginary line parallel to straight edges.''),
      (''CmdType'', Str ''NoTransaction''),
      (''Checkable'', Bool (Draft_Snap_Base_isChecked g Draft_Snap_Parallel))]"
| "GetResources g Draft_Snap_Endpoint =
     [(''Pixmap'', Str ''Draft_Snap_Endpoint''),
      (''MenuText'', Str ''Snap endpoint''),
      (''ToolTip'', Str ''Snaps to the endpoints of edges.''),
      (''CmdType'', Str ''NoTransaction''),
      (''Checkable'', Bool (Draft_Snap_Base_isChecked g Draft_Snap_Endpoint))]"
| "GetResources g Draft_Snap_Angle =
     [(''Pixmap'', Str ''Draft_Snap_Angle''),
      (''MenuText'', Str ''Snap angle''),
      (''ToolTip'', Str (''Snaps to the special cardinal points on circular edges, at multiples of 30''
           @ [CHR 0xB0] @ '' and 45'' @ [CHR 0xB0] @ ''.'')),
      (''CmdType'', Str ''NoTransaction''),
      (''Checkable'', Bool (Draft_Snap_Base_isChecked g Draft_Snap_Angle))]"
| "GetResources g Draft_Snap_Center =
     [(''Pixmap'', Str ''Draft_Snap_Center''),
      (''MenuText'', Str ''Snap center''),
      (''ToolTip'', Str ''Snaps to the center point of faces and circular edges, and to the Placement point of Working Plane Proxies and Building Parts.''),
      (''CmdType'', Str ''NoTransaction''),
      (''Checkable'', Bool (Draft_Snap_Base_isChecked g Draft_Snap_Center))]"
| "GetResources g Draft_Snap_Extension =
     [(''Pixmap'', Str ''Draft_Snap_Extension''),
      (''MenuText'', Str ''Snap extension''),
      (''ToolTip'', Str ''Snaps to an imaginary line that extends beyond the endpoints of straight edges.''),
      (''CmdType'', Str ''NoTransaction''),
      (''Checkable'', Bool (Draft_Snap_Base_isChecked g Draft_Snap_Extension))]"
| "GetResources g Draft_Snap_Near =
     [(''Pixmap'', Str ''Draft_Snap_Near''),
      (''MenuText'', Str ''Snap near''),
      (''ToolTip'', Str ''Snaps to the nearest point on faces and edges.''),
      (''CmdType'', Str ''NoTransaction''),
      (''Checkable'', Bool (Draft_Snap_Base_isChecked g Draft_Snap_Near))]"
| "GetResources g Draft_Snap_Ortho =
     [(''Pixmap'', Str ''Draft_Snap_Ortho''),
      (''MenuText'', Str ''Snap ortho''),
      (''ToolTip'', Str (''Snaps to imaginary lines that cross the previous point at multiples of 45''
           @ [CHR 0xB0] @ ''.'')),
      (''CmdType'', Str ''NoTransaction''),
      (''Checkable'', Bool (Draft_Snap_Base_isChecked g Draft_Snap_Ortho))]"
| "GetResources g Draft_Snap_Special =
     [(''Pixmap'', Str ''Draft_Snap_Special''),
      (''MenuText'', Str ''Snap special''),
      (''ToolTip'', Str ''Snaps to special points defined by the object.''),
      (''CmdType'', Str ''NoTransaction''),
      (''Checkable'', Bool (Draft_Snap_Base_isChecked g Draft_Snap_Special))]"
| "GetResources g Draft_Snap_Dimensions =
     [(''Pixmap'', Str ''Draft_Snap_Dimensions''),
      (''MenuText'', Str ''Snap dimensions''),
      (''ToolTip'', Str ''Shows temporary X and Y dimensions.''),
      (''CmdType'', Str ''NoTransaction''),
      (''Checkable'', Bool (Draft_Snap_Base_isChecked g Draft_Snap_Dimensions))]"
| "GetResources g Draft_Snap_WorkingPlane =
     [(''Pixmap'', Str ''Draft_Snap_WorkingPlane''),
      (''MenuText'', Str ''Snap working plane''),
      (''ToolTip'', Str ''Projects snap points onto the current working plane.''),
      (''CmdType'', Str ''NoTransaction''),
      (''Checkable'', Bool (Draft_Snap_Base_isChecked g Draft_Snap_WorkingPlane))]"
| "GetResources g ShowSnapBar =
     [(''Pixmap'', Str ''Draft_Snap''),
      (''MenuText'', Str ''Show snap toolbar''),
      (''ToolTip'', Str ''Shows the snap toolbar if it is hidden.''),
      (''CmdType'', Str ''NoTransaction'')]"

text \<open>The keys the host's command registry looks up.\<close>

definition has_key :: "(string \<times> res_value) list \<Rightarrow> string \<Rightarrow> bool" where
  "has_key d k = (map_of d k \<noteq> None)"

subsection \<open>A sample tracker\<close>

text \<open>
  An instance of the parameters on which the theorems below are evaluated: points are
  pairs of integers, every point counts as true, the working plane does not rotate,
  the orthogonal direction keeps the larger coordinate, and numeric input is appended to
  the buffer.
\<close>

definition sample_ops :: "(int \<times> int, unit, unit) tracker_ops" where
  "sample_ops =
     \<lparr>setHoldPoint = (\<lambda>p t. t\<lparr>holdPoint := Some p\<rparr>),
      clearHoldPoint = (\<lambda>t. t\<lparr>holdPoint := None\<rparr>),
      processNumericInput =
        (\<lambda>s t. t\<lparr>inputDistance :=
                  Some (case inputDistance t of None \<Rightarrow> s | Some b \<Rightarrow> b @ s)\<rparr>),
      updateTracking = (\<lambda>t. t),
      commitInput = (\<lambda>t. (holdPoint t, t\<lparr>inputDistance := None\<rparr>)),
      get_wp = (\<lambda>t. ()),
      get_orthogonal_direction =
        (\<lambda>t v. if \<bar>snd v\<bar> \<le> \<bar>fst v\<bar> then (fst v, 0) else (0, snd v)),
      multVec = (\<lambda>w v. v),
      vec_sub = (\<lambda>a b. (fst a - fst b, snd a - snd b)),
      truth = (\<lambda>p. True)\<rparr>"

definition sample_tracker ::
  "(int \<times> int) option \<Rightarrow> string option \<Rightarrow> (int \<times> int, unit) snap_tracker" where
  "sample_tracker hp buf =
     \<lparr>holdPoint = hp, inputDistance = buf, locked_dir_vector = None, other = ()\<rparr>"

definition sample_handler ::
  "(int \<times> int) option \<Rightarrow> string option \<Rightarrow> (int \<times> int) option
   \<Rightarrow> (int \<times> int, unit) handler" where
  "sample_handler hp buf sp =
     \<lparr>tracker = Obj (sample_tracker hp buf), currentSnapPoint = sp\<rparr>"

definition sample_toggle_snap ::
  "string \<Rightarrow> bool \<Rightarrow> (unit, unit) snapper \<Rightarrow> (unit, unit) snapper" where
  "sample_toggle_snap mode on sn =
     sn\<lparr>active_snaps :=
          (if on then mode # active_snaps sn else removeAll mode (active_snaps sn))\<rparr>"

section \<open>Properties\<close>

lemmas Key_defs = Key_Q_def Key_Escape_def Key_0_def Key_9_def Key_Backspace_def
  Key_Delete_def Key_Period_def Key_Comma_def Key_Return_def Key_Enter_def

lemmas sample_defs = sample_ops_def sample_tracker_def sample_handler_def

subsection \<open>Strings\<close>

lemma dropWhile_all_Nil:
  assumes "\<forall>x \<in> set (dropWhile P xs). P x"
  shows "dropWhile P xs = []"
proof (rule ccontr)
  assume n: "dropWhile P xs \<noteq> []"
  then have "\<not> P (hd (dropWhile P xs))"
    by (rule hd_dropWhile)
  moreover from n have "hd (dropWhile P xs) \<in> set (dropWhile P xs)"
    by (rule hd_in_set)
  ultimately show False
    using assms by blast
qed

lemma strip_empty_iff: "strip s = [] \<longleftrightarrow> list_all isspace_char s"
proof
  assume "strip s = []"
  then have "\<forall>x \<in> set (dropWhile isspace_char s). isspace_char x"
    by (simp add: strip_def dropWhile_eq_Nil_conv)
  then have "dropWhile isspace_char s = []"
    by (rule dropWhile_all_Nil)
  then show "list_all isspace_char s"
    by (simp add: dropWhile_eq_Nil_conv list_all_iff)
next
  assume "list_all isspace_char s"
  then have d: "dropWhile isspace_char s = []"
    by (simp add: dropWhile_eq_Nil_conv list_all_iff)
  show "strip s = []"
    unfolding strip_def d by simp
qed

lemma slice_to_minus1_butlast: "slice_to_minus1 s = butlast s"
  by (simp add: slice_to_minus1_def butlast_conv_take)

subsection \<open>The handler, branch by branch\<close>

lemma keep_tracker: "tracker h = Obj t \<Longrightarrow> h\<lparr>tracker := Obj t\<rparr> = h"
  by (cases h) simp

lemma no_tracker:
  "tracker h = Missing \<or> tracker h = PyNone \<Longrightarrow>
   keyPressEvent ops h event =
     \<lparr>after = h, accepted = True, console = [PrintError Tracker_missing], calls = [],
      to_super = False\<rparr>"
  by (auto simp: keyPressEvent_def)

lemma digit_no_hold:
  assumes "Key_0 \<le> ev_key event" and "ev_key event \<le> Key_9" and "tracker h = Obj t"
    and "\<not> truthy ops (holdPoint t)"
  shows "keyPressEvent ops h event = accept_return h t [] []"
  using assms by (simp add: keyPressEvent_def Key_defs)

lemma digit_invalid:
  assumes "Key_0 \<le> ev_key event" and "ev_key event \<le> Key_9" and "tracker h = Obj t"
    and "truthy ops (holdPoint t)" and "\<not> isdigit (ev_text event)"
  shows "keyPressEvent ops h event =
     accept_return h t [PrintError (Invalid_numeric_input (ev_text event))] []"
  using assms by (simp add: keyPressEvent_def Key_defs)

lemma digit_subsequent:
  assumes "Key_0 \<le> ev_key event" and "ev_key event \<le> Key_9" and "tracker h = Obj t"
    and "truthy ops (holdPoint t)" and "isdigit (ev_text event)"
    and "inputDistance t = Some b"
  shows "keyPressEvent ops h event =
     accept_return h (processNumericInput ops (ev_text event) t) []
       [Call_processNumericInput (ev_text event)]"
  using assms by (simp add: keyPressEvent_def Key_defs Let_def)

lemma digit_first_locked:
  assumes "Key_0 \<le> ev_key event" and "ev_key event \<le> Key_9" and "tracker h = Obj t"
    and "truthy ops (holdPoint t)" and "isdigit (ev_text event)"
    and "inputDistance t = None"
    and "holdPoint (processNumericInput ops (ev_text event) t) = Some hp"
    and "currentSnapPoint h = Some sp" and "truth ops hp" and "truth ops sp"
  shows "keyPressEvent ops h event =
     accept_return h
       ((processNumericInput ops (ev_text event) t)
          \<lparr>locked_dir_vector :=
             Some (get_orthogonal_direction ops (processNumericInput ops (ev_text event) t)
                    (multVec ops (get_wp ops (processNumericInput ops (ev_text event) t))
                       (vec_sub ops sp hp)))\<rparr>)
       []
       [Call_processNumericInput (ev_text event), Call_get_wp,
        Call_get_orthogonal_direction
          (multVec ops (get_wp ops (processNumericInput ops (ev_text event) t))
             (vec_sub ops sp hp)),
        Write_locked_dir_vector
          (get_orthogonal_direction ops (processNumericInput ops (ev_text event) t)
             (multVec ops (get_wp ops (processNumericInput ops (ev_text event) t))
                (vec_sub ops sp hp)))]"
  using assms by (simp add: keyPressEvent_def Key_defs Let_def)

lemma digit_first_unlocked:
  assumes "Key_0 \<le> ev_key event" and "ev_key event \<le> Key_9" and "tracker h = Obj t"
    and "truthy ops (holdPoint t)" and "isdigit (ev_text event)"
    and "inputDistance t = None"
    and "\<not> (truthy ops (holdPoint (processNumericInput ops (ev_text event) t))
            \<and> truthy ops (currentSnapPoint h))"
  shows "keyPressEvent ops h event =
     accept_return h (processNumericInput ops (ev_text event) t) []
       [Call_processNumericInput (ev_text event)]"
  using assms
  by (cases "holdPoint (processNumericInput ops (ev_text event) t)";
      cases "currentSnapPoint h")
     (auto simp add: keyPressEvent_def Key_defs Let_def truthy_def)

lemma backspace_branch:
  assumes "ev_key event = Key_Backspace \<or> ev_key event = Key_Delete" and "tracker h = Obj t"
  shows "keyPressEvent ops h event =
     (case inputDistance t of
        None \<Rightarrow> accept_return h t [] []
      | Some s \<Rightarrow>
          if s = [] then accept_return h t [] []
          else
            let t2 = updateTracking ops (t\<lparr>inputDistance := Some (slice_to_minus1 s)\<rparr>)
            in accept_return h t2
                 [PrintMessage (Numeric_input_backspaced (inputDistance t2))]
                 [Write_inputDistance (slice_to_minus1 s), Call_updateTracking])"
  using assms by (auto simp: keyPressEvent_def Key_defs Let_def)

lemma separator_branch:
  assumes "ev_key event = Key_Period \<or> ev_key event = Key_Comma" and "tracker h = Obj t"
  shows "keyPressEvent ops h event =
     accept_return h (processNumericInput ops ''.'' t) [] [Call_processNumericInput ''.'']"
  using assms by (auto simp: keyPressEvent_def Key_defs Let_def)

lemma return_branch:
  assumes "ev_key event = Key_Return \<or> ev_key event = Key_Enter" and "tracker h = Obj t"
  shows "keyPressEvent ops h event =
     (case inputDistance t of
        None \<Rightarrow> accept_return h t [PrintError No_valid_numeric_input] []
      | Some s \<Rightarrow>
          if s = [] \<or> strip s = [] then
            accept_return h t [PrintError No_valid_numeric_input] []
          else
            (case commitInput ops t of
               (Some target, t1) \<Rightarrow>
                 accept_return h t1 [PrintMessage (Geometry_created target)]
                   [Call_commitInput]
             | (None, t1) \<Rightarrow> accept_return h t1 [] [Call_commitInput]))"
  using assms by (auto simp: keyPressEvent_def Key_defs Let_def)


lemma q_branch:
  assumes "ev_key event = Key_Q" and "tracker h = Obj t"
  shows "keyPressEvent ops h event =
     (case currentSnapPoint h of
        Some p \<Rightarrow>
          accept_return h (setHoldPoint ops p t) [PrintMessage (Hold_point_set p)]
            [Call_setHoldPoint p]
      | None \<Rightarrow> accept_return h t [] [])"
  using assms by (simp add: keyPressEvent_def Key_defs Let_def)

lemma escape_branch:
  assumes "ev_key event = Key_Escape" and "tracker h = Obj t"
  shows "keyPressEvent ops h event =
     accept_return h (clearHoldPoint ops t) [PrintMessage Hold_point_cleared]
       [Call_clearHoldPoint]"
  using assms by (simp add: keyPressEvent_def Key_defs Let_def)

lemma accept_return_same:
  "tracker h = Obj t \<Longrightarrow>
   accept_return h t out cs =
     \<lparr>after = h, accepted = True, console = out, calls = cs, to_super = False\<rparr>"
  by (simp add: accept_return_def keep_tracker)

lemma accept_return_sel:
  "tracker (after (accept_return h t out cs)) = Obj t"
  "currentSnapPoint (after (accept_return h t out cs)) = currentSnapPoint h"
  "accepted (accept_return h t out cs)"
  "console (accept_return h t out cs) = out"
  "calls (accept_return h t out cs) = cs"
  "\<not> to_super (accept_return h t out cs)"
  by (simp_all add: accept_return_def)

text \<open>The five ways a digit key is handled when a tracker is present.\<close>

lemma digit_cases:
  assumes "Key_0 \<le> ev_key event" and "ev_key event \<le> Key_9" and "tracker h = Obj t"
  obtains
    (no_hold) "\<not> truthy ops (holdPoint t)"
      and "keyPressEvent ops h event = accept_return h t [] []"
  | (invalid) "truthy ops (holdPoint t)" and "\<not> isdigit (ev_text event)"
      and "keyPressEvent ops h event =
           accept_return h t [PrintError (Invalid_numeric_input (ev_text event))] []"
  | (subsequent) "truthy ops (holdPoint t)" and "isdigit (ev_text event)"
      and "inputDistance t \<noteq> None"
      and "keyPressEvent ops h event =
           accept_return h (processNumericInput ops (ev_text event) t) []
             [Call_processNumericInput (ev_text event)]"
  | (first_unlocked) "truthy ops (holdPoint t)" and "isdigit (ev_text event)"
      and "inputDistance t = None"
      and "\<not> (truthy ops (holdPoint (processNumericInput ops (ev_text event) t))
               \<and> truthy ops (currentSnapPoint h))"
      and "keyPressEvent ops h event =
           accept_return h (processNumericInput ops (ev_text event) t) []
             [Call_processNumericInput (ev_text event)]"
  | (first_locked) hp sp where "truthy ops (holdPoint t)" and "isdigit (ev_text event)"
      and "inputDistance t = None"
      and "holdPoint (processNumericInput ops (ev_text event) t) = Some hp"
      and "currentSnapPoint h = Some sp" and "truth ops hp" and "truth ops sp"
      and "keyPressEvent ops h event =
           accept_return h
             ((processNumericInput ops (ev_text event) t)
                \<lparr>locked_dir_vector :=
                   Some (get_orthogonal_direction ops
                          (processNumericInput ops (ev_text event) t)
                          (multVec ops (get_wp ops (processNumericInput ops (ev_text event) t))
                             (vec_sub ops sp hp)))\<rparr>)
             []
             [Call_processNumericInput (ev_text event), Call_get_wp,
              Call_get_orthogonal_direction
                (multVec ops (get_wp ops (processNumericInput ops (ev_text event) t))
                   (vec_sub ops sp hp)),
              Write_locked_dir_vector
                (get_orthogonal_direction ops (processNumericInput ops (ev_text event) t)
                   (multVec ops (get_wp ops (processNumericInput ops (ev_text event) t))
                      (vec_sub ops sp hp)))]"
proof -
  let ?t1 = "processNumericInput ops (ev_text event) t"
  consider "\<not> truthy ops (holdPoint t)"
    | "truthy ops (holdPoint t)" "\<not> isdigit (ev_text event)"
    | "truthy ops (holdPoint t)" "isdigit (ev_text event)" "inputDistance t \<noteq> None"
    | "truthy ops (holdPoint t)" "isdigit (ev_text event)" "inputDistance t = None"
      "\<not> (truthy ops (holdPoint ?t1) \<and> truthy ops (currentSnapPoint h))"
    | "truthy ops (holdPoint t)" "isdigit (ev_text event)" "inputDistance t = None"
      "truthy ops (holdPoint ?t1)" "truthy ops (currentSnapPoint h)"
    by blast
  then show thesis
  proof cases
    case 1
    then show thesis
      using digit_no_hold [OF assms] no_hold by blast
  next
    case 2
    then show thesis
      using digit_invalid [OF assms] invalid by blast
  next
    case 3
    then obtain b where "inputDistance t = Some b"
      by blast
    with 3 show thesis
      using digit_subsequent [OF assms] subsequent by blast
  next
    case 4
    then show thesis
      using digit_first_unlocked [OF assms] first_unlocked by blast
  next
    case 5
    then obtain hp sp where
      "holdPoint ?t1 = Some hp" "currentSnapPoint h = Some sp" "truth ops hp" "truth ops sp"
      by (auto simp: truthy_def split: option.splits)
    with 5 show thesis
      using digit_first_locked [OF assms] first_locked by blast
  qed
qed

section \<open>The claims\<close>

text \<open>
  C1. A key in the range \<open>Key_0\<close> to \<open>Key_9\<close> sends the text of the event to
  \<open>processNumericInput\<close> only when the tracker holds a hold point: if the call is made,
  a tracker exists, its hold point is set and the argument is the digit text of the event;
  with a hold point and a digit text the call is made; and with no hold point the event
  is accepted, no tracker method is called and the handler object, with its tracker, is
  as before.
\<close>

theorem digit_forwarded_only_with_hold_point:
  assumes "Key_0 \<le> ev_key event" and "ev_key event \<le> Key_9"
  shows "(Call_processNumericInput s \<in> set (calls (keyPressEvent ops h event)) \<longrightarrow>
            (\<exists>t p. tracker h = Obj t \<and> holdPoint t = Some p \<and> truth ops p)
            \<and> s = ev_text event \<and> isdigit s)
       \<and> (tracker h = Obj t \<and> truthy ops (holdPoint t) \<and> isdigit (ev_text event) \<longrightarrow>
            Call_processNumericInput (ev_text event)
              \<in> set (calls (keyPressEvent ops h event)))
       \<and> (tracker h = Obj t \<and> holdPoint t = None \<longrightarrow>
            keyPressEvent ops h event =
              \<lparr>after = h, accepted = True, console = [], calls = [], to_super = False\<rparr>)"
proof (cases "tracker h")
  case Missing
  then show ?thesis
    by (simp add: no_tracker)
next
  case PyNone
  then show ?thesis
    by (simp add: no_tracker)
next
  case (Obj t0)
  have hold: "\<exists>p. holdPoint t0 = Some p \<and> truth ops p" if "truthy ops (holdPoint t0)"
    using that by (cases "holdPoint t0") (simp_all add: truthy_def)
  from assms Obj show ?thesis
  proof (cases rule: digit_cases [where ops = ops])
    case no_hold
    then show ?thesis
      using Obj by (auto simp: accept_return_sel accept_return_same truthy_def)
  next
    case invalid
    then show ?thesis
      using Obj by (auto simp: accept_return_sel truthy_def)
  next
    case subsequent
    then show ?thesis
      using Obj hold by (auto simp: accept_return_sel truthy_def)
  next
    case first_unlocked
    then show ?thesis
      using Obj hold by (auto simp: accept_return_sel truthy_def)
  next
    case (first_locked hp sp)
    then show ?thesis
      using Obj hold by (auto simp: accept_return_sel truthy_def)
  qed
qed

theorem digit_forwarded_only_with_hold_point_witness:
  "Call_processNumericInput ''5''
     \<in> set (calls (keyPressEvent sample_ops (sample_handler (Some (0, 0)) None (Some (3, 1)))
                 \<lparr>ev_key = 0x35, ev_text = ''5''\<rparr>))
   \<and> keyPressEvent sample_ops (sample_handler None None (Some (3, 1)))
        \<lparr>ev_key = 0x35, ev_text = ''5''\<rparr> =
      \<lparr>after = sample_handler None None (Some (3, 1)), accepted = True, console = [],
       calls = [], to_super = False\<rparr>"
  using
    digit_forwarded_only_with_hold_point
      [where event = "\<lparr>ev_key = 0x35, ev_text = ''5''\<rparr>" and ops = sample_ops
         and h = "sample_handler (Some (0, 0)) None (Some (3, 1))"
         and t = "sample_tracker (Some (0, 0)) None" and s = "''5''"]
    digit_forwarded_only_with_hold_point
      [where event = "\<lparr>ev_key = 0x35, ev_text = ''5''\<rparr>" and ops = sample_ops
         and h = "sample_handler None None (Some (3, 1))"
         and t = "sample_tracker None None" and s = "''5''"]
  by (simp add: sample_defs Key_defs truthy_def isdigit_def isdigit_char_def)

text \<open>
  C2. The handler writes \<open>locked_dir_vector\<close> only on the first digit of an entry: if
  the write happens, \<open>inputDistance\<close> was \<open>None\<close>, a hold point and a current snap point
  exist, and the value written is the orthogonal direction of the difference
  \<open>currentSnapPoint - holdPoint\<close> rotated into the local frame of the working plane;
  under these conditions (with objects that count as true) the write does happen. For a
  later digit (\<open>inputDistance\<close> is not \<open>None\<close>) the only thing done to the tracker is the
  call of \<open>processNumericInput\<close>, so \<open>locked_dir_vector\<close> is as that method leaves it:
  unchanged, when the method does not touch it.
\<close>

theorem locked_dir_vector_only_on_first_digit:
  assumes "Key_0 \<le> ev_key event" and "ev_key event \<le> Key_9" and "tracker h = Obj t"
  shows
    "(let r = keyPressEvent ops h event;
          t1 = processNumericInput ops (ev_text event) t
      in (Write_locked_dir_vector v \<in> set (calls r) \<longrightarrow>
            inputDistance t = None
            \<and> (\<exists>hp sp. holdPoint t1 = Some hp \<and> currentSnapPoint h = Some sp
                  \<and> v = get_orthogonal_direction ops t1
                          (multVec ops (get_wp ops t1) (vec_sub ops sp hp)))
            \<and> tracker (after r) = Obj (t1\<lparr>locked_dir_vector := Some v\<rparr>))
       \<and> (inputDistance t = None \<and> truthy ops (holdPoint t) \<and> isdigit (ev_text event)
            \<and> truthy ops (holdPoint t1) \<and> truthy ops (currentSnapPoint h) \<longrightarrow>
            (\<exists>w. Write_locked_dir_vector w \<in> set (calls r)))
       \<and> (inputDistance t \<noteq> None \<and> truthy ops (holdPoint t) \<and> isdigit (ev_text event) \<longrightarrow>
            calls r = [Call_processNumericInput (ev_text event)]
            \<and> tracker (after r) = Obj t1)
       \<and> (inputDistance t \<noteq> None \<and> locked_dir_vector t1 = locked_dir_vector t \<longrightarrow>
            (\<exists>t'. tracker (after r) = Obj t'
                  \<and> locked_dir_vector t' = locked_dir_vector t)))"
  using assms
proof (cases rule: digit_cases [where ops = ops])
  case no_hold
  then show ?thesis
    by (simp add: Let_def accept_return_sel)
next
  case invalid
  then show ?thesis
    by (simp add: Let_def accept_return_sel)
next
  case subsequent
  then show ?thesis
    by (simp add: Let_def accept_return_sel)
next
  case first_unlocked
  then show ?thesis
    by (simp add: Let_def accept_return_sel)
next
  case (first_locked hp sp)
  then show ?thesis
    by (simp add: Let_def accept_return_sel)
qed

theorem locked_dir_vector_only_on_first_digit_witness:
  "calls (keyPressEvent sample_ops (sample_handler (Some (0, 0)) None (Some (3, 1)))
            \<lparr>ev_key = 0x35, ev_text = ''5''\<rparr>) =
     [Call_processNumericInput ''5'', Call_get_wp, Call_get_orthogonal_direction (3, 1),
      Write_locked_dir_vector (3, 0)]
   \<and> tracker (after (keyPressEvent sample_ops
                       (sample_handler (Some (0, 0)) None (Some (3, 1)))
                       \<lparr>ev_key = 0x35, ev_text = ''5''\<rparr>)) =
     Obj \<lparr>holdPoint = Some (0, 0), inputDistance = Some ''5'',
          locked_dir_vector = Some (3, 0), other = ()\<rparr>
   \<and> calls (keyPressEvent sample_ops (sample_handler (Some (0, 0)) (Some ''5'') (Some (3, 1)))
              \<lparr>ev_key = 0x37, ev_text = ''7''\<rparr>) =
     [Call_processNumericInput ''7'']
   \<and> tracker (after (keyPressEvent sample_ops
                       (sample_handler (Some (0, 0)) (Some ''5'') (Some (3, 1)))
                       \<lparr>ev_key = 0x37, ev_text = ''7''\<rparr>)) =
     Obj \<lparr>holdPoint = Some (0, 0), inputDistance = Some ''57'',
          locked_dir_vector = None, other = ()\<rparr>"
  using
    locked_dir_vector_only_on_first_digit
      [where event = "\<lparr>ev_key = 0x35, ev_text = ''5''\<rparr>" and ops = sample_ops
         and h = "sample_handler (Some (0, 0)) None (Some (3, 1))"
         and t = "sample_tracker (Some (0, 0)) None" and v = "(3, 0)"]
    locked_dir_vector_only_on_first_digit
      [where event = "\<lparr>ev_key = 0x37, ev_text = ''7''\<rparr>" and ops = sample_ops
         and h = "sample_handler (Some (0, 0)) (Some ''5'') (Some (3, 1))"
         and t = "sample_tracker (Some (0, 0)) (Some ''5'')" and v = "(3, 0)"]
  by (simp add: sample_defs Key_defs truthy_def isdigit_def isdigit_char_def Let_def
        keyPressEvent_def accept_return_def)

text \<open>
  C3. On Return or Enter, with a tracker present, \<open>commitInput\<close> is called if and only if
  \<open>inputDistance\<close> is a non-empty string that is not made of whitespace only; then it is
  the only call. Otherwise an error is printed, the event is accepted, nothing is called
  and the handler object, with its tracker, is as before.
\<close>

theorem commit_iff_valid_input:
  assumes "ev_key event = Key_Return \<or> ev_key event = Key_Enter" and "tracker h = Obj t"
  shows
    "(Call_commitInput \<in> set (calls (keyPressEvent ops h event)) \<longleftrightarrow>
        (\<exists>s. inputDistance t = Some s \<and> s \<noteq> [] \<and> \<not> list_all isspace_char s))
     \<and> ((\<exists>s. inputDistance t = Some s \<and> s \<noteq> [] \<and> \<not> list_all isspace_char s) \<longrightarrow>
          calls (keyPressEvent ops h event) = [Call_commitInput]
          \<and> tracker (after (keyPressEvent ops h event)) = Obj (snd (commitInput ops t))
          \<and> accepted (keyPressEvent ops h event))
     \<and> (\<not> (\<exists>s. inputDistance t = Some s \<and> s \<noteq> [] \<and> \<not> list_all isspace_char s) \<longrightarrow>
          keyPressEvent ops h event =
            \<lparr>after = h, accepted = True, console = [PrintError No_valid_numeric_input],
             calls = [], to_super = False\<rparr>)"
proof (cases "inputDistance t")
  case None
  then show ?thesis
    using return_branch [OF assms, of ops] assms(2) by (simp add: accept_return_same)
next
  case (Some s)
  show ?thesis
  proof (cases "s = [] \<or> strip s = []")
    case True
    then have "s = [] \<or> list_all isspace_char s"
      by (simp add: strip_empty_iff)
    with True Some show ?thesis
      using return_branch [OF assms, of ops] assms(2) by (auto simp: accept_return_same)
  next
    case False
    then have "s \<noteq> []" and "\<not> list_all isspace_char s"
      by (simp_all add: strip_empty_iff)
    with False Some show ?thesis
      using return_branch [OF assms, of ops]
      by (cases "commitInput ops t"; cases "fst (commitInput ops t)")
         (auto simp: accept_return_sel)
  qed
qed

theorem commit_iff_valid_input_witness:
  "calls (keyPressEvent sample_ops (sample_handler (Some (0, 0)) (Some ''12.5'') None)
            \<lparr>ev_key = Key_Return, ev_text = []\<rparr>) = [Call_commitInput]
   \<and> keyPressEvent sample_ops (sample_handler (Some (0, 0)) (Some '' '') None)
        \<lparr>ev_key = Key_Enter, ev_text = []\<rparr> =
      \<lparr>after = sample_handler (Some (0, 0)) (Some '' '') None, accepted = True,
       console = [PrintError No_valid_numeric_input], calls = [], to_super = False\<rparr>"
  using
    commit_iff_valid_input
      [where event = "\<lparr>ev_key = Key_Return, ev_text = []\<rparr>" and ops = sample_ops
         and h = "sample_handler (Some (0, 0)) (Some ''12.5'') None"
         and t = "sample_tracker (Some (0, 0)) (Some ''12.5'')"]
    commit_iff_valid_input
      [where event = "\<lparr>ev_key = Key_Enter, ev_text = []\<rparr>" and ops = sample_ops
         and h = "sample_handler (Some (0, 0)) (Some '' '') None"
         and t = "sample_tracker (Some (0, 0)) (Some '' '')"]
  by (simp add: sample_defs isspace_char_def)

text \<open>
  C4. On Backspace or Delete, with a tracker present: if \<open>inputDistance\<close> is a non-empty
  string, the handler writes the string without its last character to \<open>inputDistance\<close>
  and then calls \<open>updateTracking\<close>; if \<open>inputDistance\<close> is \<open>None\<close> or empty, the event is
  accepted, nothing is called and the handler object, with its tracker, is as before.
\<close>

theorem backspace_removes_last_character:
  assumes "ev_key event = Key_Backspace \<or> ev_key event = Key_Delete"
    and "tracker h = Obj t"
  shows
    "(inputDistance t = Some s \<and> s \<noteq> [] \<longrightarrow>
        butlast s @ [last s] = s
        \<and> calls (keyPressEvent ops h event) =
            [Write_inputDistance (butlast s), Call_updateTracking]
        \<and> tracker (after (keyPressEvent ops h event)) =
            Obj (updateTracking ops (t\<lparr>inputDistance := Some (butlast s)\<rparr>))
        \<and> accepted (keyPressEvent ops h event))
     \<and> (inputDistance t = None \<or> inputDistance t = Some [] \<longrightarrow>
          keyPressEvent ops h event =
            \<lparr>after = h, accepted = True, console = [], calls = [], to_super = False\<rparr>)"
  using backspace_branch [OF assms, of ops] assms(2)
  by (auto simp: accept_return_sel accept_return_same slice_to_minus1_butlast Let_def)

theorem backspace_removes_last_character_witness:
  "calls (keyPressEvent sample_ops (sample_handler (Some (0, 0)) (Some ''12.5'') None)
            \<lparr>ev_key = Key_Backspace, ev_text = []\<rparr>) =
     [Write_inputDistance ''12.'', Call_updateTracking]
   \<and> tracker (after (keyPressEvent sample_ops
                       (sample_handler (Some (0, 0)) (Some ''12.5'') None)
                       \<lparr>ev_key = Key_Backspace, ev_text = []\<rparr>)) =
     Obj (sample_tracker (Some (0, 0)) (Some ''12.''))
   \<and> keyPressEvent sample_ops (sample_handler (Some (0, 0)) (Some []) None)
        \<lparr>ev_key = Key_Delete, ev_text = []\<rparr> =
      \<lparr>after = sample_handler (Some (0, 0)) (Some []) None, accepted = True, console = [],
       calls = [], to_super = False\<rparr>"
  using
    backspace_removes_last_character
      [where event = "\<lparr>ev_key = Key_Backspace, ev_text = []\<rparr>" and ops = sample_ops
         and h = "sample_handler (Some (0, 0)) (Some ''12.5'') None"
         and t = "sample_tracker (Some (0, 0)) (Some ''12.5'')" and s = "''12.5''"]
    backspace_removes_last_character
      [where event = "\<lparr>ev_key = Key_Delete, ev_text = []\<rparr>" and ops = sample_ops
         and h = "sample_handler (Some (0, 0)) (Some []) None"
         and t = "sample_tracker (Some (0, 0)) (Some [])" and s = "[]"]
  by (simp add: sample_defs)

text \<open>
  C5. With a tracker present: the key Q calls \<open>setHoldPoint\<close> with the current snap
  point exactly when that point is not \<open>None\<close>, and calls nothing when it is \<open>None\<close>; the
  key Escape calls \<open>clearHoldPoint\<close> whatever the state; in both cases the event is
  accepted and the handler returns without going on to the default handler.
\<close>

theorem q_sets_and_escape_clears_hold_point:
  assumes "tracker h = Obj t"
  shows
    "(ev_key event = Key_Q \<longrightarrow>
        (case currentSnapPoint h of
           Some p \<Rightarrow>
             calls (keyPressEvent ops h event) = [Call_setHoldPoint p]
             \<and> tracker (after (keyPressEvent ops h event)) = Obj (setHoldPoint ops p t)
         | None \<Rightarrow>
             calls (keyPressEvent ops h event) = []
             \<and> after (keyPressEvent ops h event) = h)
        \<and> accepted (keyPressEvent ops h event)
        \<and> \<not> to_super (keyPressEvent ops h event))
     \<and> (ev_key event = Key_Escape \<longrightarrow>
          calls (keyPressEvent ops h event) = [Call_clearHoldPoint]
          \<and> tracker (after (keyPressEvent ops h event)) = Obj (clearHoldPoint ops t)
          \<and> accepted (keyPressEvent ops h event)
          \<and> \<not> to_super (keyPressEvent ops h event))"
proof (intro conjI impI)
  assume q: "ev_key event = Key_Q"
  show "case currentSnapPoint h of
          Some p \<Rightarrow>
            calls (keyPressEvent ops h event) = [Call_setHoldPoint p]
            \<and> tracker (after (keyPressEvent ops h event)) = Obj (setHoldPoint ops p t)
        | None \<Rightarrow>
            calls (keyPressEvent ops h event) = []
            \<and> after (keyPressEvent ops h event) = h"
    using q_branch [OF q assms, of ops] assms
    by (cases "currentSnapPoint h") (simp_all add: accept_return_sel accept_return_same)
  show "accepted (keyPressEvent ops h event)"
    using q_branch [OF q assms, of ops]
    by (cases "currentSnapPoint h") (simp_all add: accept_return_sel)
  show "\<not> to_super (keyPressEvent ops h event)"
    using q_branch [OF q assms, of ops]
    by (cases "currentSnapPoint h") (simp_all add: accept_return_sel)
next
  assume e: "ev_key event = Key_Escape"
  show "calls (keyPressEvent ops h event) = [Call_clearHoldPoint]"
    and "tracker (after (keyPressEvent ops h event)) = Obj (clearHoldPoint ops t)"
    and "accepted (keyPressEvent ops h event)"
    and "\<not> to_super (keyPressEvent ops h event)"
    using escape_branch [OF e assms, of ops] by (simp_all add: accept_return_sel)
qed

theorem q_sets_and_escape_clears_hold_point_witness:
  "calls (keyPressEvent sample_ops (sample_handler None None (Some (3, 1)))
            \<lparr>ev_key = Key_Q, ev_text = ''q''\<rparr>) = [Call_setHoldPoint (3, 1)]
   \<and> tracker (after (keyPressEvent sample_ops (sample_handler None None (Some (3, 1)))
                       \<lparr>ev_key = Key_Q, ev_text = ''q''\<rparr>)) =
     Obj (sample_tracker (Some (3, 1)) None)
   \<and> calls (keyPressEvent sample_ops (sample_handler None None None)
              \<lparr>ev_key = Key_Q, ev_text = ''q''\<rparr>) = []
   \<and> calls (keyPressEvent sample_ops (sample_handler (Some (3, 1)) None None)
              \<lparr>ev_key = Key_Escape, ev_text = []\<rparr>) = [Call_clearHoldPoint]
   \<and> tracker (after (keyPressEvent sample_ops (sample_handler (Some (3, 1)) None None)
                       \<lparr>ev_key = Key_Escape, ev_text = []\<rparr>)) =
     Obj (sample_tracker None None)"
  using
    q_sets_and_escape_clears_hold_point
      [where event = "\<lparr>ev_key = Key_Q, ev_text = ''q''\<rparr>" and ops = sample_ops
         and h = "sample_handler None None (Some (3, 1))"
         and t = "sample_tracker None None"]
    q_sets_and_escape_clears_hold_point
      [where event = "\<lparr>ev_key = Key_Q, ev_text = ''q''\<rparr>" and ops = sample_ops
         and h = "sample_handler None None None"
         and t = "sample_tracker None None"]
    q_sets_and_escape_clears_hold_point
      [where event = "\<lparr>ev_key = Key_Escape, ev_text = []\<rparr>" and ops = sample_ops
         and h = "sample_handler (Some (3, 1)) None None"
         and t = "sample_tracker (Some (3, 1)) None"]
  by (simp add: sample_defs Key_defs)

text \<open>
  C6. When \<open>Gui\<close> has no \<open>Snapper\<close>, \<open>Draft_Snap_Base.Activated\<close> returns silently and
  \<open>Draft_Snap_Base.toggleSnapMode\<close> prints an error; neither calls \<open>toggle_snap\<close> and
  \<open>Gui\<close> is as before. When the handler object has no \<open>tracker\<close> attribute, or it is
  \<open>None\<close>, \<open>keyPressEvent\<close> prints an error, accepts the event, calls no tracker method
  and leaves the handler object as it was.
\<close>

theorem missing_collaborators_are_no_ops:
  "(Snapper g = None \<longrightarrow>
      Draft_Snap_Base_Activated toggle_snap g self status =
        \<lparr>gui_after = g, gui_console = [], toggle_calls = []\<rparr>
      \<and> Draft_Snap_Base_toggleSnapMode toggle_snap g mode status =
          \<lparr>gui_after = g, gui_console = [PrintError Snapper_missing], toggle_calls = []\<rparr>)
   \<and> (tracker h = Missing \<or> tracker h = PyNone \<longrightarrow>
        keyPressEvent ops h event =
          \<lparr>after = h, accepted = True, console = [PrintError Tracker_missing], calls = [],
           to_super = False\<rparr>)"
  by (simp add: Draft_Snap_Base_Activated_def Draft_Snap_Base_toggleSnapMode_def no_tracker)

theorem missing_collaborators_are_no_ops_witness:
  "Draft_Snap_Base_Activated sample_toggle_snap \<lparr>Snapper = None\<rparr> Draft_Snap_Grid 1 =
     \<lparr>gui_after = \<lparr>Snapper = None\<rparr>, gui_console = [], toggle_calls = []\<rparr>
   \<and> Draft_Snap_Base_toggleSnapMode sample_toggle_snap \<lparr>Snapper = None\<rparr> ''Lock'' 1 =
       \<lparr>gui_after = \<lparr>Snapper = None\<rparr>, gui_console = [PrintError Snapper_missing],
        toggle_calls = []\<rparr>
   \<and> keyPressEvent sample_ops \<lparr>tracker = PyNone, currentSnapPoint = Some (3, 1)\<rparr>
        \<lparr>ev_key = Key_Q, ev_text = ''q''\<rparr> =
       \<lparr>after = \<lparr>tracker = PyNone, currentSnapPoint = Some (3, 1)\<rparr>, accepted = True,
        console = [PrintError Tracker_missing], calls = [], to_super = False\<rparr>"
  using
    missing_collaborators_are_no_ops
      [where g = "\<lparr>Snapper = None\<rparr>" and toggle_snap = sample_toggle_snap
         and self = Draft_Snap_Grid and status = 1 and mode = "''Lock''"
         and h = "\<lparr>tracker = PyNone, currentSnapPoint = Some (3, 1)\<rparr>"
         and ops = sample_ops and event = "\<lparr>ev_key = Key_Q, ev_text = ''q''\<rparr>"]
  by simp

text \<open>
  C8, as amended. For every registered command \<open>GetResources\<close> has the keys
  \<open>Pixmap\<close>, \<open>MenuText\<close>, \<open>ToolTip\<close> and \<open>CmdType\<close>; the key \<open>Accel\<close> is there only for
  \<open>Draft_Snap_Lock\<close>, and the key \<open>Checkable\<close>, bound to the result of \<open>isChecked\<close>, for
  every command but \<open>ShowSnapBar\<close>.
\<close>

theorem GetResources_keys:
  assumes "c \<in> set (map snd registered_commands)"
  shows
    "has_key (GetResources g c) ''Pixmap''
     \<and> has_key (GetResources g c) ''MenuText''
     \<and> has_key (GetResources g c) ''ToolTip''
     \<and> has_key (GetResources g c) ''CmdType''
     \<and> (has_key (GetResources g c) ''Accel'' \<longleftrightarrow> c = Draft_Snap_Lock)
     \<and> (has_key (GetResources g c) ''Checkable'' \<longleftrightarrow> c \<noteq> ShowSnapBar)
     \<and> (c \<noteq> ShowSnapBar \<longrightarrow>
          map_of (GetResources g c) ''Checkable'' =
            Some (Bool (Draft_Snap_Base_isChecked g c)))"
  by (cases c) (simp_all add: has_key_def)

theorem GetResources_keys_witness:
  "Draft_Snap_Lock \<in> set (map snd registered_commands)
   \<and> has_key (GetResources \<lparr>Snapper = None\<rparr> Draft_Snap_Lock) ''Accel''
   \<and> map_of (GetResources \<lparr>Snapper = None\<rparr> Draft_Snap_Lock) ''Checkable'' =
       Some (Bool False)"
  using GetResources_keys [where c = Draft_Snap_Lock and g = "\<lparr>Snapper = None\<rparr>"]
  by (simp add: registered_commands_def Draft_Snap_Base_isChecked_def)

text \<open>
  C8, as stated, fails: \<open>Draft_Snap_Midpoint\<close> is registered and its \<open>GetResources\<close> has
  no key \<open>Accel\<close>; \<open>ShowSnapBar\<close> is registered and has neither \<open>Accel\<close> nor \<open>Checkable\<close>.
\<close>

theorem GetResources_without_Accel:
  "(''Draft_Snap_Midpoint'', Draft_Snap_Midpoint) \<in> set registered_commands
   \<and> \<not> has_key (GetResources \<lparr>Snapper = None\<rparr> Draft_Snap_Midpoint) ''Accel''
   \<and> (''Draft_ShowSnapBar'', ShowSnapBar) \<in> set registered_commands
   \<and> \<not> has_key (GetResources \<lparr>Snapper = None\<rparr> ShowSnapBar) ''Accel''
   \<and> \<not> has_key (GetResources \<lparr>Snapper = None\<rparr> ShowSnapBar) ''Checkable''"
  by (simp add: registered_commands_def has_key_def)

text \<open>
  C9. With a tracker present, Period and Comma call \<open>processNumericInput\<close> with the
  string \<open>.\<close> whatever the hold point and the buffer are: the result does not depend on
  \<open>holdPoint\<close> or \<open>inputDistance\<close>, and the call is made also with no hold point and no
  input.
\<close>

theorem decimal_separator_is_not_guarded:
  assumes "ev_key event = Key_Period \<or> ev_key event = Key_Comma" and "tracker h = Obj t"
  shows "keyPressEvent ops h event =
     \<lparr>after = h\<lparr>tracker := Obj (processNumericInput ops ''.'' t)\<rparr>, accepted = True,
      console = [], calls = [Call_processNumericInput ''.''], to_super = False\<rparr>"
  using separator_branch [OF assms, of ops] by (simp add: accept_return_def)

theorem decimal_separator_is_not_guarded_witness:
  "keyPressEvent sample_ops (sample_handler None None None)
     \<lparr>ev_key = Key_Comma, ev_text = '',''\<rparr> =
   \<lparr>after = sample_handler None (Some ''.'') None, accepted = True, console = [],
    calls = [Call_processNumericInput ''.''], to_super = False\<rparr>"
  using
    decimal_separator_is_not_guarded
      [where event = "\<lparr>ev_key = Key_Comma, ev_text = '',''\<rparr>" and ops = sample_ops
         and h = "sample_handler None None None" and t = "sample_tracker None None"]
  by (simp add: sample_defs)

text \<open>
  C10. A key in the range \<open>Key_0\<close> to \<open>Key_9\<close> whose text is not a digit string, with a
  hold point set (an object that counts as true): an error is printed, the event is
  accepted, \<open>processNumericInput\<close> is not called, nothing else is, and the handler
  object, with its tracker, is as before.
\<close>

theorem non_digit_text_is_ignored:
  assumes "Key_0 \<le> ev_key event" and "ev_key event \<le> Key_9" and "tracker h = Obj t"
    and "holdPoint t = Some p" and "truth ops p" and "\<not> isdigit (ev_text event)"
  shows "keyPressEvent ops h event =
     \<lparr>after = h, accepted = True,
      console = [PrintError (Invalid_numeric_input (ev_text event))], calls = [],
      to_super = False\<rparr>"
proof -
  have "truthy ops (holdPoint t)"
    using assms(4,5) by (simp add: truthy_def)
  then show ?thesis
    using digit_invalid [OF assms(1-3) _ assms(6), of ops] assms(3)
    by (simp add: accept_return_same)
qed

theorem non_digit_text_is_ignored_witness:
  "keyPressEvent sample_ops (sample_handler (Some (0, 0)) (Some ''1'') None)
     \<lparr>ev_key = 0x31, ev_text = []\<rparr> =
   \<lparr>after = sample_handler (Some (0, 0)) (Some ''1'') None, accepted = True,
    console = [PrintError (Invalid_numeric_input [])], calls = [], to_super = False\<rparr>"
  using
    non_digit_text_is_ignored
      [where event = "\<lparr>ev_key = 0x31, ev_text = []\<rparr>" and ops = sample_ops
         and h = "sample_handler (Some (0, 0)) (Some ''1'') None"
         and t = "sample_tracker (Some (0, 0)) (Some ''1'')" and p = "(0, 0)"]
  by (simp add: sample_defs Key_defs isdigit_def)

end
